theory Spec2Isabelle
  imports Complex_Main
begin

section \<open>Data model\<close>

text \<open>
  The report-actions view (\<^verbatim>\<open>ReportActionsView\<close>) derives, on every render, a window
  over the merged action list and a handful of flags, and exposes callbacks that issue
  requests to the store. The model below keeps the names of the source. A render is a
  function of a snapshot of the props, hook values and refs (\<open>view_state\<close>); a callback
  takes that snapshot and returns the requests it issued, in order, together with the
  updated snapshot where it writes a ref or a state cell.
\<close>

datatype action_type = CREATED | REPORTPREVIEW | OTHER_ACTION string

datatype pending_action = ADD | UPDATE | DELETE

record reportAction =
  reportActionID :: string
  created :: string
  actionName :: action_type
  pendingAction :: "pending_action option"

record report =
  reportID :: string
  lastVisibleActionCreated :: "string option"

text \<open>The four store operations the view calls; each call is fire-and-forget.\<close>

datatype api_call =
    OpenReport string "string option"
  | Reconnect string
  | GetOlderActions string string
  | GetNewerActions string string

text \<open>An access to a field of \<^verbatim>\<open>undefined\<close> throws a \<^verbatim>\<open>TypeError\<close>.\<close>

datatype js_error = TypeError | Error string

text \<open>
  \<open>combinedReportActions\<close> is the result of \<^verbatim>\<open>getCombinedReportActionsForDisplay\<close>,
  \<open>isReportFullyVisible\<close> the result of \<^verbatim>\<open>getIsReportFullyVisible(isFocused)\<close>; both
  functions live outside the view and their results are inputs here.
  \<open>routeReportActionID\<close> is \<^verbatim>\<open>route?.params?.reportActionID\<close>,
  \<open>prevNetworkIsOffline\<close> is \<^verbatim>\<open>prevNetworkRef.current.isOffline\<close>.
\<close>

record view_state =
  report :: report
  transactionThreadReport :: "report option"
  allReportActions :: "reportAction list"
  combinedReportActions :: "reportAction list"
  routeReportActionID :: "string option"
  currentReportActionID :: string
  isFirstLinkedActionRender :: bool
  isNavigatingToLinkedMessage :: bool
  isLoadingInitialReportActions :: bool
  isLoadingOlderReportActions :: bool
  isLoadingNewerReportActions :: bool
  isReadyForCommentLinking :: bool
  isOffline :: bool
  prevNetworkIsOffline :: bool
  isReportFullyVisible :: bool
  windowHeight :: real
  contentListHeight :: real

record id_map_item =
  item_reportActionID :: string
  item_reportID :: "string option"

section \<open>JavaScript helpers\<close>

text \<open>Truthiness of an optional string: \<^verbatim>\<open>undefined\<close> and \<^verbatim>\<open>''\<close> are falsy.\<close>

definition truthy :: "string option \<Rightarrow> bool" where
  "truthy v = (case v of None \<Rightarrow> False | Some s \<Rightarrow> s \<noteq> [])"

text \<open>\<^verbatim>\<open>String(v)\<close> of an optional string.\<close>

definition String :: "string option \<Rightarrow> string" where
  "String v = (case v of None \<Rightarrow> ''undefined'' | Some s \<Rightarrow> s)"

text \<open>\<^verbatim>\<open>Array.prototype.findIndex\<close>: the first index that satisfies, or \<open>-1\<close>.\<close>

fun findIndex :: "('a \<Rightarrow> bool) \<Rightarrow> 'a list \<Rightarrow> int" where
  "findIndex P [] = -1"
| "findIndex P (x # xs) =
     (if P x then 0 else (let r = findIndex P xs in if r = -1 then -1 else r + 1))"

text \<open>\<^verbatim>\<open>Array.prototype.slice(start)\<close> with an integer start; a negative start counts from the end.\<close>

definition slice :: "int \<Rightarrow> 'a list \<Rightarrow> 'a list" where
  "slice start xs =
     (let k = (if start < 0 then max (int (length xs) + start) 0 else start)
      in drop (nat k) xs)"

text \<open>\<^verbatim>\<open>Array.prototype.findLast\<close>.\<close>

definition findLast :: "('a \<Rightarrow> bool) \<Rightarrow> 'a list \<Rightarrow> 'a option" where
  "findLast P xs = find P (rev xs)"

section \<open>Derived values of a render\<close>

definition isLoading :: "view_state \<Rightarrow> bool" where
  "isLoading s =
     ((truthy (routeReportActionID s) \<and> isLoadingInitialReportActions s)
      \<or> \<not> isReadyForCommentLinking s)"

definition indexOfLinkedAction :: "view_state \<Rightarrow> int" where
  "indexOfLinkedAction s =
     (if \<not> truthy (routeReportActionID s) \<or> isLoading s then -1
      else findIndex
             (\<lambda>obj. reportActionID obj =
                (if isFirstLinkedActionRender s then String (routeReportActionID s)
                 else currentReportActionID s))
             (combinedReportActions s))"

text \<open>
  The window. \<open>paginationSize\<close> is the constant \<^verbatim>\<open>getInitialPaginationSize\<close>, imported
  from a module of its own; it is a parameter here.
\<close>

definition reportActions :: "int \<Rightarrow> view_state \<Rightarrow> reportAction list" where
  "reportActions paginationSize s =
     (if \<not> truthy (routeReportActionID s) then combinedReportActions s
      else if isLoading s \<or> indexOfLinkedAction s = -1 then []
      else if isFirstLinkedActionRender s
        then slice (indexOfLinkedAction s) (combinedReportActions s)
      else slice (max (indexOfLinkedAction s - paginationSize) 0) (combinedReportActions s))"

definition reportActionIDMap :: "int \<Rightarrow> view_state \<Rightarrow> id_map_item list" where
  "reportActionIDMap paginationSize s =
     (let reportActionIDs = map reportActionID (allReportActions s)
      in map (\<lambda>action.
                \<lparr> item_reportActionID = reportActionID action,
                  item_reportID =
                    (if reportActionID action \<in> set reportActionIDs
                     then Some (reportID (report s))
                     else map_option reportID (transactionThreadReport s)) \<rparr>)
             (reportActions paginationSize s))"

definition hasMoreCached :: "int \<Rightarrow> view_state \<Rightarrow> bool" where
  "hasMoreCached paginationSize s =
     (length (reportActions paginationSize s) < length (combinedReportActions s))"

text \<open>\<^verbatim>\<open>list?.[0]\<close> and \<^verbatim>\<open>list?.at(-1)\<close>: the newest entry is the first, the oldest the last.\<close>

definition newestOf :: "'a list \<Rightarrow> 'a option" where
  "newestOf xs = (case xs of [] \<Rightarrow> None | x # _ \<Rightarrow> Some x)"

definition oldestOf :: "'a list \<Rightarrow> 'a option" where
  "oldestOf xs = (if xs = [] then None else Some (last xs))"

definition newestReportAction :: "int \<Rightarrow> view_state \<Rightarrow> reportAction option" where
  "newestReportAction paginationSize s = newestOf (reportActions paginationSize s)"

definition oldestReportAction :: "int \<Rightarrow> view_state \<Rightarrow> reportAction option" where
  "oldestReportAction paginationSize s = oldestOf (reportActions paginationSize s)"

text \<open>
  \<^verbatim>\<open>reportActions[0]?.created === report.lastVisibleActionCreated ||
  reportActions[0]?.created === transactionThreadReport?.lastVisibleActionCreated\<close>;
  \<open>None\<close> stands for \<^verbatim>\<open>undefined\<close> on both sides of \<^verbatim>\<open>===\<close>.
\<close>

definition hasNewestReportAction :: "int \<Rightarrow> view_state \<Rightarrow> bool" where
  "hasNewestReportAction paginationSize s =
     (let c = map_option created (newestOf (reportActions paginationSize s))
      in c = lastVisibleActionCreated (report s)
         \<or> c = (case transactionThreadReport s of
                  None \<Rightarrow> None
                | Some t \<Rightarrow> lastVisibleActionCreated t))"

definition hasCreatedAction :: "int \<Rightarrow> view_state \<Rightarrow> bool" where
  "hasCreatedAction paginationSize s =
     (map_option actionName (oldestReportAction paginationSize s) = Some CREATED)"

definition checkIfContentSmallerThanList :: "view_state \<Rightarrow> bool" where
  "checkIfContentSmallerThanList s = (windowHeight s - 120 - 16 > contentListHeight s)"

section \<open>The fetch triggers\<close>

text \<open>
  \<^verbatim>\<open>x?.reportID ?? '0'\<close> and \<^verbatim>\<open>x?.reportActionID ?? '0'\<close> on the result of a
  \<^verbatim>\<open>find\<close> over the identifier map.
\<close>

definition anchorReportID :: "id_map_item option \<Rightarrow> string" where
  "anchorReportID x =
     (case x of None \<Rightarrow> ''0''
      | Some i \<Rightarrow> (case item_reportID i of None \<Rightarrow> ''0'' | Some r \<Rightarrow> r))"

definition anchorActionID :: "id_map_item option \<Rightarrow> string" where
  "anchorActionID x = (case x of None \<Rightarrow> ''0'' | Some i \<Rightarrow> item_reportActionID i)"

text \<open>
  \<^verbatim>\<open>lodashIsEmpty(transactionThreadReport)\<close> is the case split on the optional
  report below: a report object always carries its \<^verbatim>\<open>reportID\<close>, so it is empty
  exactly when it is absent.
\<close>

definition loadOlderChats :: "int \<Rightarrow> view_state \<Rightarrow> api_call list" where
  "loadOlderChats paginationSize s =
     (if isOffline s \<or> isLoadingOlderReportActions s \<or> isLoadingInitialReportActions s then []
      else case oldestReportAction paginationSize s of
        None \<Rightarrow> []
      | Some oldest \<Rightarrow>
          if hasCreatedAction paginationSize s then []
          else case transactionThreadReport s of
            Some t \<Rightarrow>
              (let oldestActionCurrentReport =
                     findLast (\<lambda>item. item_reportID item = Some (reportID (report s)))
                              (reportActionIDMap paginationSize s);
                   oldestActionTransactionThreadReport =
                     findLast (\<lambda>item. item_reportID item = Some (reportID t))
                              (reportActionIDMap paginationSize s)
               in [GetNewerActions (anchorReportID oldestActionCurrentReport)
                                   (anchorActionID oldestActionCurrentReport),
                   GetNewerActions (anchorReportID oldestActionTransactionThreadReport)
                                   (anchorActionID oldestActionTransactionThreadReport)])
          | None \<Rightarrow> [GetOlderActions (reportID (report s)) (reportActionID oldest)])"

definition fetchNewerAction :: "int \<Rightarrow> view_state \<Rightarrow> reportAction \<Rightarrow> api_call list" where
  "fetchNewerAction paginationSize s newest =
     (if isLoadingNewerReportActions s \<or> isLoadingInitialReportActions s then []
      else case transactionThreadReport s of
        Some t \<Rightarrow>
          (let newestActionCurrentReport =
                 find (\<lambda>item. item_reportID item = Some (reportID (report s)))
                      (reportActionIDMap paginationSize s);
               newestActionTransactionThreadReport =
                 find (\<lambda>item. item_reportID item = Some (reportID t))
                      (reportActionIDMap paginationSize s)
           in [GetNewerActions (anchorReportID newestActionCurrentReport)
                               (anchorActionID newestActionCurrentReport),
               GetNewerActions (anchorReportID newestActionTransactionThreadReport)
                               (anchorActionID newestActionTransactionThreadReport)])
      | None \<Rightarrow> [GetNewerActions (reportID (report s)) (reportActionID newest)])"

text \<open>
  \<^verbatim>\<open>handleReportActionPagination\<close> writes the first-render ref and the current pointer;
  the values it closes over (\<open>hasMoreCached\<close>, \<open>fetchNewerAction\<close>) are those of the
  render, so they are computed from the snapshot \<open>s\<close>.
\<close>

definition handleReportActionPagination ::
  "int \<Rightarrow> view_state \<Rightarrow> reportAction \<Rightarrow> string \<Rightarrow> view_state \<times> api_call list" where
  "handleReportActionPagination paginationSize s newest firstReportActionID =
     (let (s1, calls) =
            (if \<not> hasMoreCached paginationSize s
             then (s\<lparr>isFirstLinkedActionRender := False\<rparr>, fetchNewerAction paginationSize s newest)
             else (s, []));
          s2 = (if isFirstLinkedActionRender s1 then s1\<lparr>isFirstLinkedActionRender := False\<rparr> else s1)
      in (s2\<lparr>currentReportActionID := firstReportActionID\<rparr>, calls))"

text \<open>
  \<^verbatim>\<open>loadNewerChats\<close>. The guard reads \<^verbatim>\<open>newestReportAction.pendingAction\<close> as the last
  operand of a chain of \<^verbatim>\<open>||\<close>: it is evaluated only when the three flags before it are
  false, and throws when the window is empty. Nothing is requested before the throw.
\<close>

definition loadNewerChats :: "int \<Rightarrow> view_state \<Rightarrow> js_error + (view_state \<times> api_call list)" where
  "loadNewerChats paginationSize s =
     (if isLoadingInitialReportActions s \<or> isLoadingOlderReportActions s \<or> isOffline s
      then Inr (s, [])
      else case newestReportAction paginationSize s of
        None \<Rightarrow> Inl TypeError
      | Some newest \<Rightarrow>
          if pendingAction newest = Some DELETE then Inr (s, [])
          else
            (let isLoadingOlderReportsFirstNeeded =
                   (checkIfContentSmallerThanList s
                    \<and> length (reportActions paginationSize s) > 23)
             in if (truthy (routeReportActionID s) \<and> indexOfLinkedAction s > -1
                      \<and> \<not> hasNewestReportAction paginationSize s
                      \<and> \<not> isLoadingOlderReportsFirstNeeded)
                   \<or> (\<not> truthy (routeReportActionID s)
                      \<and> \<not> hasNewestReportAction paginationSize s
                      \<and> \<not> isLoadingOlderReportsFirstNeeded)
                then Inr (handleReportActionPagination paginationSize s newest
                            (reportActionID newest))
                else Inr (s, [])))"

text \<open>The requests a call of \<open>loadNewerChats\<close> issued, whether it returned or threw.\<close>

definition issued :: "js_error + (view_state \<times> api_call list) \<Rightarrow> api_call list" where
  "issued r = (case r of Inl e \<Rightarrow> [] | Inr (s', calls) \<Rightarrow> calls)"

section \<open>Reconciliation on network change\<close>

text \<open>
  \<^verbatim>\<open>shouldFetchReport\<close> is imported from a library module; it is a parameter of the two
  helpers that guard on it.
\<close>

definition openReportIfNecessary :: "(report \<Rightarrow> bool) \<Rightarrow> view_state \<Rightarrow> api_call list" where
  "openReportIfNecessary shouldFetchReport s =
     (if \<not> shouldFetchReport (report s) then []
      else [OpenReport (reportID (report s)) (routeReportActionID s)])"

definition reconnectReportIfNecessary :: "(report \<Rightarrow> bool) \<Rightarrow> view_state \<Rightarrow> api_call list" where
  "reconnectReportIfNecessary shouldFetchReport s =
     (if \<not> shouldFetchReport (report s) then []
      else [Reconnect (reportID (report s))])"

text \<open>The effect that runs when \<^verbatim>\<open>network\<close> or \<^verbatim>\<open>isReportFullyVisible\<close> changes.\<close>

definition networkEffect :: "(report \<Rightarrow> bool) \<Rightarrow> view_state \<Rightarrow> view_state \<times> api_call list" where
  "networkEffect shouldFetchReport s =
     (let wasNetworkChangeDetected = (prevNetworkIsOffline s \<and> \<not> isOffline s);
          calls =
            (if wasNetworkChangeDetected
             then (if isReportFullyVisible s
                   then openReportIfNecessary shouldFetchReport s
                   else reconnectReportIfNecessary shouldFetchReport s)
             else [])
      in (s\<lparr>prevNetworkIsOffline := isOffline s\<rparr>, calls))"

definition isOpenReport :: "api_call \<Rightarrow> bool" where
  "isOpenReport c = (case c of OpenReport r a \<Rightarrow> True | _ \<Rightarrow> False)"

definition isReconnect :: "api_call \<Rightarrow> bool" where
  "isReconnect c = (case c of Reconnect r \<Rightarrow> True | _ \<Rightarrow> False)"

section \<open>What the view renders\<close>

record list_props =
  props_reportActions :: "reportAction list"
  props_loadOlderChats :: "unit \<Rightarrow> api_call list"
  props_loadNewerChats :: "unit \<Rightarrow> js_error + (view_state \<times> api_call list)"
  props_shouldEnableAutoScrollToTopThreshold :: bool

definition shouldEnableAutoScroll :: "int \<Rightarrow> view_state \<Rightarrow> bool" where
  "shouldEnableAutoScroll paginationSize s =
     (hasNewestReportAction paginationSize s
      \<and> (\<not> truthy (routeReportActionID s) \<or> \<not> isNavigatingToLinkedMessage s))"

text \<open>The view returns \<^verbatim>\<open>null\<close> when the window is empty, the list with its props otherwise.\<close>

definition ReportActionsView :: "int \<Rightarrow> view_state \<Rightarrow> list_props option" where
  "ReportActionsView paginationSize s =
     (if length (reportActions paginationSize s) = 0 then None
      else Some \<lparr> props_reportActions = reportActions paginationSize s,
                  props_loadOlderChats = (\<lambda>_. loadOlderChats paginationSize s),
                  props_loadNewerChats = (\<lambda>_. loadNewerChats paginationSize s),
                  props_shouldEnableAutoScrollToTopThreshold =
                    shouldEnableAutoScroll paginationSize s \<rparr>)"

section \<open>The prefix padding of the text input\<close>

text \<open>
  \<^verbatim>\<open>getCharacterPadding\<close> of the text input. \<open>ROOM_PREFIX\<close> is the constant
  \<^verbatim>\<open>CONST.POLICY.ROOM_PREFIX\<close>, a parameter here.
\<close>

definition getCharacterPadding :: "string \<Rightarrow> string \<Rightarrow> js_error + int" where
  "getCharacterPadding ROOM_PREFIX prefix =
     (if prefix = ROOM_PREFIX then Inr 10
      else Inl (Error (''Prefix '' @ prefix @ '' has no padding assigned.'')))"

section \<open>Concrete snapshots\<close>

definition mkAction :: "string \<Rightarrow> string \<Rightarrow> reportAction" where
  "mkAction i c =
     \<lparr> reportActionID = i, created = c, actionName = OTHER_ACTION ''ADDCOMMENT'',
       pendingAction = None \<rparr>"

definition a1 :: reportAction where "a1 = mkAction ''a1'' ''2024-01-01''"
definition a2 :: reportAction where "a2 = mkAction ''a2'' ''2024-01-02''"
definition a3 :: reportAction where "a3 = mkAction ''a3'' ''2024-01-03''"
definition a4 :: reportAction where "a4 = mkAction ''a4'' ''2024-01-04''"
definition t1 :: reportAction where "t1 = mkAction ''t1'' ''2024-01-01b''"

definition r1 :: report where
  "r1 = \<lparr> reportID = ''r1'', lastVisibleActionCreated = Some ''2024-01-09'' \<rparr>"

definition rT :: report where
  "rT = \<lparr> reportID = ''rT'', lastVisibleActionCreated = Some ''2024-01-01b'' \<rparr>"

text \<open>A settled, online snapshot without deep link, holding \<open>a4 .. a1\<close> newest first.\<close>

definition s0 :: view_state where
  "s0 = \<lparr> report = r1, transactionThreadReport = None,
          allReportActions = [a4, a3, a2, a1],
          combinedReportActions = [a4, a3, a2, a1],
          routeReportActionID = None, currentReportActionID = [],
          isFirstLinkedActionRender = True, isNavigatingToLinkedMessage = False,
          isLoadingInitialReportActions = False, isLoadingOlderReportActions = False,
          isLoadingNewerReportActions = False, isReadyForCommentLinking = True,
          isOffline = False, prevNetworkIsOffline = False, isReportFullyVisible = True,
          windowHeight = 800, contentListHeight = 900 \<rparr>"

text \<open>A created marker, and a run of 24 actions with distinct identifiers.\<close>

definition c0 :: reportAction where
  "c0 = \<lparr> reportActionID = ''c0'', created = ''2024-01-00'', actionName = CREATED,
          pendingAction = None \<rparr>"

definition letters :: "reportAction list" where
  "letters = map (\<lambda>c. mkAction [c] [c]) ''xwvutsrqponmlkjihgfedcba''"

definition sOffline :: view_state where
  "sOffline = s0\<lparr> isOffline := True \<rparr>"

definition sCreated :: view_state where
  "sCreated = s0\<lparr> combinedReportActions := [a1, c0], allReportActions := [a1, c0] \<rparr>"

text \<open>A deep link to \<open>a2\<close> on its first render.\<close>

definition sLink :: view_state where
  "sLink = s0\<lparr> combinedReportActions := [a3, a2, a1], allReportActions := [a3, a2, a1],
               routeReportActionID := Some ''a2'',
               isNavigatingToLinkedMessage := True \<rparr>"

text \<open>A later render of a deep link, the current pointer at index 10.\<close>

definition sPointer :: view_state where
  "sPointer = s0\<lparr> combinedReportActions := letters, allReportActions := letters,
                  routeReportActionID := Some ''m'', currentReportActionID := ''n'',
                  isFirstLinkedActionRender := False \<rparr>"

text \<open>24 entries whose rendered height is below the viewport.\<close>

definition sShort :: view_state where
  "sShort = s0\<lparr> combinedReportActions := letters, allReportActions := letters,
                windowHeight := 800, contentListHeight := 100 \<rparr>"

text \<open>Back online, with the screen fully visible and hidden.\<close>

definition sBack :: view_state where
  "sBack = s0\<lparr> prevNetworkIsOffline := True \<rparr>"

definition sBackHidden :: view_state where
  "sBackHidden = s0\<lparr> prevNetworkIsOffline := True, isReportFullyVisible := False \<rparr>"

text \<open>A guard that lets every report through but the one named.\<close>

definition fetchExcept :: "string \<Rightarrow> report \<Rightarrow> bool" where
  "fetchExcept rid r = (reportID r \<noteq> rid)"

definition sEmpty :: view_state where
  "sEmpty = s0\<lparr> combinedReportActions := [], allReportActions := [] \<rparr>"

definition sEmptyOffline :: view_state where
  "sEmptyOffline =
     s0\<lparr> combinedReportActions := [], allReportActions := [], isOffline := True \<rparr>"

text \<open>The window reaches the report's last visible action.\<close>

definition sTop :: view_state where
  "sTop = s0\<lparr> report :=
              \<lparr> reportID = ''r1'', lastVisibleActionCreated = Some ''2024-01-04'' \<rparr> \<rparr>"

text \<open>A one-transaction report: \<open>a4\<close>, \<open>a2\<close> of the report, \<open>t1\<close> of its thread.\<close>

definition sThread :: view_state where
  "sThread = s0\<lparr> transactionThreadReport := Some rT, allReportActions := [a4, a2],
                 combinedReportActions := [a4, a2, t1] \<rparr>"

section \<open>Auxiliary facts\<close>

lemma mk_simps:
  "reportActionID (mkAction i c) = i" "created (mkAction i c) = c"
  "actionName (mkAction i c) = OTHER_ACTION ''ADDCOMMENT''"
  "pendingAction (mkAction i c) = None"
  by (simp_all add: mkAction_def)

lemmas s_defs = s0_def a1_def a2_def a3_def a4_def t1_def r1_def rT_def mkAction_def

lemmas d_defs = reportActions_def indexOfLinkedAction_def isLoading_def truthy_def String_def
  slice_def Let_def newestReportAction_def oldestReportAction_def newestOf_def oldestOf_def
  hasCreatedAction_def hasNewestReportAction_def hasMoreCached_def reportActionIDMap_def
  checkIfContentSmallerThanList_def anchorReportID_def anchorActionID_def findLast_def

subsection \<open>\<open>findIndex\<close> and \<open>slice\<close>\<close>

lemma findIndex_ge: "- 1 \<le> findIndex P xs"
  by (induction xs) (auto simp: Let_def)

lemma findIndex_found:
  "0 \<le> findIndex P xs \<Longrightarrow>
     nat (findIndex P xs) < length xs \<and> P (xs ! nat (findIndex P xs))
     \<and> (\<forall>j < nat (findIndex P xs). \<not> P (xs ! j))"
proof (induction xs)
  case Nil
  then show ?case by simp
next
  case (Cons x xs)
  show ?case
  proof (cases "P x")
    case True
    then show ?thesis by simp
  next
    case False
    with Cons.prems have nn: "findIndex P xs \<noteq> - 1"
      by (auto simp: Let_def split: if_splits)
    with findIndex_ge [of P xs] have ge: "0 \<le> findIndex P xs" by arith
    from False nn have eq: "findIndex P (x # xs) = findIndex P xs + 1"
      by (simp add: Let_def)
    from ge have n: "nat (findIndex P xs + 1) = Suc (nat (findIndex P xs))" by simp
    from Cons.IH [OF ge] False show ?thesis
      unfolding eq n by (auto simp: less_Suc_eq_0_disj)
  qed
qed

lemma findIndex_exists: "\<exists>x \<in> set xs. P x \<Longrightarrow> 0 \<le> findIndex P xs"
proof (induction xs)
  case Nil
  then show ?case by simp
next
  case (Cons x xs)
  show ?case
  proof (cases "P x")
    case True
    then show ?thesis by simp
  next
    case False
    with Cons.prems have "\<exists>y \<in> set xs. P y" by auto
    from Cons.IH [OF this] False show ?thesis by (simp add: Let_def)
  qed
qed

lemma slice_nonneg: "0 \<le> k \<Longrightarrow> slice k xs = drop (nat k) xs"
  by (simp add: slice_def)

lemma oldestOf_drop: "n < length xs \<Longrightarrow> oldestOf (drop n xs) = oldestOf xs"
  by (auto simp: oldestOf_def)

lemma newestOf_drop: "n < length xs \<Longrightarrow> newestOf (drop n xs) = Some (xs ! n)"
  by (simp add: newestOf_def Cons_nth_drop_Suc [symmetric])

subsection \<open>The window and the callbacks\<close>

lemma index_first_render:
  assumes "routeReportActionID s = Some t" "t \<noteq> []" "\<not> isLoading s"
    "isFirstLinkedActionRender s"
  shows "indexOfLinkedAction s
    = findIndex (\<lambda>obj. reportActionID obj = t) (combinedReportActions s)"
  using assms by (simp add: indexOfLinkedAction_def truthy_def String_def)

lemma window_newest: "reportActions pg s \<noteq> [] \<Longrightarrow> \<exists>a. newestReportAction pg s = Some a"
  by (simp add: newestReportAction_def newestOf_def split: list.splits)

lemma fetchNewerAction_loading:
  "isLoadingNewerReportActions s \<Longrightarrow> fetchNewerAction pg s a = []"
  by (simp add: fetchNewerAction_def)

lemma handle_calls:
  "snd (handleReportActionPagination pg s a i) =
     (if hasMoreCached pg s then [] else fetchNewerAction pg s a)"
  by (simp add: handleReportActionPagination_def Let_def)

lemma issued_Inr: "issued (Inr p) = snd p"
  by (simp add: issued_def split: prod.splits)

lemma issued_Inl: "issued (Inl e) = []"
  by (simp add: issued_def)

lemma loadNewerChats_nonempty:
  assumes "reportActions pg s \<noteq> []"
  shows "\<exists>r. loadNewerChats pg s = Inr r"
proof -
  from window_newest [OF assms] obtain a where "newestReportAction pg s = Some a" ..
  then show ?thesis by (simp add: loadNewerChats_def Let_def)
qed

lemma loadNewerChats_empty:
  "reportActions pg s = [] \<Longrightarrow>
     loadNewerChats pg s =
       (if isLoadingInitialReportActions s \<or> isLoadingOlderReportActions s \<or> isOffline s
        then Inr (s, []) else Inl TypeError)"
  by (simp add: loadNewerChats_def newestReportAction_def newestOf_def)

lemma loadOlderChats_empty: "reportActions pg s = [] \<Longrightarrow> loadOlderChats pg s = []"
  by (simp add: loadOlderChats_def oldestReportAction_def oldestOf_def)

subsection \<open>Values on the concrete snapshots\<close>

lemma sLink_eval:
  "indexOfLinkedAction sLink = 1" "reportActions 15 sLink = [a2, a1]"
  by (simp_all add: sLink_def s_defs reportActions_def indexOfLinkedAction_def isLoading_def
        truthy_def String_def slice_def Let_def)

lemma length_letters: "length letters = 24"
  by (simp add: letters_def)

lemma sPointer_index: "indexOfLinkedAction sPointer = 10"
  by (simp add: sPointer_def s0_def letters_def mk_simps indexOfLinkedAction_def isLoading_def
        truthy_def Let_def)

text \<open>
  Without a transaction thread the older fetch asks for the page before the oldest held
  action, and the newer fetch for the page after the newest one.
\<close>

lemma s0_loadOlderChats: "loadOlderChats 15 s0 = [GetOlderActions ''r1'' ''a1'']"
  by (simp add: loadOlderChats_def s_defs d_defs)

lemma s0_loadNewerChats:
  "loadNewerChats 15 s0 =
     Inr (s0\<lparr>isFirstLinkedActionRender := False, currentReportActionID := ''a4''\<rparr>,
          [GetNewerActions ''r1'' ''a4''])"
  by (simp add: loadNewerChats_def handleReportActionPagination_def fetchNewerAction_def
        s_defs d_defs)

section \<open>The older fetch with a transaction thread\<close>

text \<open>
  C1. With a transaction thread report attached and the guards passed (online, no older
  or initial fetch in flight, a non-empty window whose oldest entry is not the created
  marker), \<open>loadOlderChats\<close> issues exactly two requests, one per report, each anchored at
  the last entry of the window that belongs to that report (its oldest held action, or
  \<open>''0''\<close> when the window holds none of it). Both requests are \<open>GetNewerActions\<close>: the
  page after the anchor, not the page preceding it.
\<close>

theorem loadOlderChats_thread_calls:
  assumes "transactionThreadReport s = Some t"
    "\<not> isOffline s" "\<not> isLoadingOlderReportActions s" "\<not> isLoadingInitialReportActions s"
    "reportActions pg s \<noteq> []" "\<not> hasCreatedAction pg s"
  shows "loadOlderChats pg s =
      [GetNewerActions
         (anchorReportID (findLast (\<lambda>item. item_reportID item = Some (reportID (report s)))
                            (reportActionIDMap pg s)))
         (anchorActionID (findLast (\<lambda>item. item_reportID item = Some (reportID (report s)))
                            (reportActionIDMap pg s))),
       GetNewerActions
         (anchorReportID (findLast (\<lambda>item. item_reportID item = Some (reportID t))
                            (reportActionIDMap pg s)))
         (anchorActionID (findLast (\<lambda>item. item_reportID item = Some (reportID t))
                            (reportActionIDMap pg s)))]"
  using assms
  by (simp add: loadOlderChats_def oldestReportAction_def oldestOf_def Let_def)

text \<open>
  C1, on the snapshot \<open>sThread\<close>: the window is \<open>[a4, a2, t1]\<close>, the oldest held action of
  the report is \<open>a2\<close> and that of the thread is \<open>t1\<close>. The two requests are newer-page
  requests at \<open>a2\<close> and \<open>t1\<close>; no older-page request is issued.
\<close>

theorem loadOlderChats_thread_calls_witness:
  "transactionThreadReport sThread = Some rT
   \<and> \<not> isOffline sThread \<and> \<not> isLoadingOlderReportActions sThread
   \<and> \<not> isLoadingInitialReportActions sThread
   \<and> reportActions 15 sThread = [a4, a2, t1] \<and> \<not> hasCreatedAction 15 sThread
   \<and> loadOlderChats 15 sThread = [GetNewerActions ''r1'' ''a2'', GetNewerActions ''rT'' ''t1'']
   \<and> GetOlderActions ''r1'' ''a2'' \<notin> set (loadOlderChats 15 sThread)
   \<and> GetOlderActions ''rT'' ''t1'' \<notin> set (loadOlderChats 15 sThread)"
proof -
  have w: "reportActions 15 sThread = [a4, a2, t1]"
    by (simp add: sThread_def s0_def reportActions_def truthy_def)
  have h: "transactionThreadReport sThread = Some rT"
    "\<not> isOffline sThread" "\<not> isLoadingOlderReportActions sThread"
    "\<not> isLoadingInitialReportActions sThread"
    "reportActions 15 sThread \<noteq> []" "\<not> hasCreatedAction 15 sThread"
    by (simp_all add: w hasCreatedAction_def oldestReportAction_def oldestOf_def t1_def mk_simps)
       (simp_all add: sThread_def s0_def)
  have m: "reportActionIDMap 15 sThread =
      [\<lparr>item_reportActionID = ''a4'', item_reportID = Some ''r1''\<rparr>,
       \<lparr>item_reportActionID = ''a2'', item_reportID = Some ''r1''\<rparr>,
       \<lparr>item_reportActionID = ''t1'', item_reportID = Some ''rT''\<rparr>]"
    by (simp add: reportActionIDMap_def w Let_def)
       (simp add: sThread_def s_defs)
  have r: "reportID (report sThread) = ''r1''" "reportID rT = ''rT''"
    by (simp_all add: sThread_def s_defs)
  from loadOlderChats_thread_calls [OF h] h w show ?thesis
    by (simp add: m r findLast_def anchorReportID_def anchorActionID_def)
qed

section \<open>Guards of the newer fetch\<close>

text \<open>
  C2. \<open>loadNewerChats\<close> issues no request when an initial, older or newer fetch is in
  flight, or the client is offline, or the newest held action is pending deletion, or the
  newest held entry's creation timestamp equals the last-visible-action timestamp of the
  report or of the transaction thread report (\<open>hasNewestReportAction\<close>).
\<close>

theorem loadNewerChats_no_request:
  "isLoadingInitialReportActions s \<or> isLoadingOlderReportActions s
     \<or> isLoadingNewerReportActions s \<or> isOffline s
     \<or> map_option pendingAction (newestReportAction pg s) = Some (Some DELETE)
     \<or> hasNewestReportAction pg s
   \<Longrightarrow> issued (loadNewerChats pg s) = []"
  by (auto simp: loadNewerChats_def issued_Inr issued_Inl Let_def handle_calls
        fetchNewerAction_loading split: option.splits)

text \<open>
  C2, at a snapshot with a newer fetch in flight and at one whose window has reached the
  report's last visible action.
\<close>

theorem loadNewerChats_no_request_witness:
  "isLoadingNewerReportActions (s0\<lparr>isLoadingNewerReportActions := True\<rparr>)
   \<and> issued (loadNewerChats 15 (s0\<lparr>isLoadingNewerReportActions := True\<rparr>)) = []
   \<and> hasNewestReportAction 15 sTop \<and> issued (loadNewerChats 15 sTop) = []"
proof -
  have h1: "isLoadingNewerReportActions (s0\<lparr>isLoadingNewerReportActions := True\<rparr>)" by simp
  have h2: "hasNewestReportAction 15 sTop" by (simp add: sTop_def s_defs d_defs)
  from h1 h2 show ?thesis
    using loadNewerChats_no_request [of "s0\<lparr>isLoadingNewerReportActions := True\<rparr>" 15]
      loadNewerChats_no_request [of sTop 15]
    by simp
qed

section \<open>Guards of the older fetch\<close>

text \<open>
  C3. \<open>loadOlderChats\<close> issues no request when the client is offline, or an older or
  initial fetch is in flight, or the window's oldest entry is the created marker; the
  last disjunct does not mention the network, so it holds online and offline alike.
\<close>

theorem loadOlderChats_guarded:
  "isOffline s \<or> isLoadingOlderReportActions s \<or> isLoadingInitialReportActions s
     \<or> hasCreatedAction pg s
   \<Longrightarrow> loadOlderChats pg s = []"
  by (auto simp: loadOlderChats_def split: option.splits)

text \<open>
  C3, offline, and with the created marker as oldest entry both online and offline.
\<close>

theorem loadOlderChats_guarded_witness:
  "isOffline sOffline \<and> loadOlderChats 15 sOffline = []
   \<and> hasCreatedAction 15 sCreated \<and> \<not> isOffline sCreated \<and> loadOlderChats 15 sCreated = []
   \<and> hasCreatedAction 15 (sCreated\<lparr>isOffline := True\<rparr>)
   \<and> loadOlderChats 15 (sCreated\<lparr>isOffline := True\<rparr>) = []"
proof -
  have h1: "isOffline sOffline" by (simp add: sOffline_def s_defs)
  have h2: "hasCreatedAction 15 sCreated" "\<not> isOffline sCreated"
    by (simp_all add: sCreated_def c0_def s_defs d_defs)
  have h3: "hasCreatedAction 15 (sCreated\<lparr>isOffline := True\<rparr>)"
    by (simp add: sCreated_def c0_def s_defs d_defs)
  from h1 h2 h3 show ?thesis
    using loadOlderChats_guarded [of sOffline 15] loadOlderChats_guarded [of sCreated 15]
      loadOlderChats_guarded [of "sCreated\<lparr>isOffline := True\<rparr>" 15]
    by simp
qed

section \<open>The window of a deep link\<close>

text \<open>
  C4, as amended. With a deep-link target \<open>t\<close> (a non-empty identifier) that occurs in the
  merged sequence, the first-render flag set and the view not loading, the window is
  exactly the suffix of the merged sequence that starts at the first position of \<open>t\<close>:
  the target is the newest entry of the window, the oldest entry of the window is the
  oldest entry of the merged sequence, and the entries before the target are left out.
\<close>

theorem reportActions_first_render_suffix:
  assumes "routeReportActionID s = Some t" "t \<noteq> []" "\<not> isLoading s"
    "isFirstLinkedActionRender s"
    "t \<in> reportActionID ` set (combinedReportActions s)"
  shows "0 \<le> indexOfLinkedAction s
    \<and> nat (indexOfLinkedAction s) < length (combinedReportActions s)
    \<and> reportActionID (combinedReportActions s ! nat (indexOfLinkedAction s)) = t
    \<and> (\<forall>j < nat (indexOfLinkedAction s). reportActionID (combinedReportActions s ! j) \<noteq> t)
    \<and> reportActions pg s = drop (nat (indexOfLinkedAction s)) (combinedReportActions s)
    \<and> newestReportAction pg s = Some (combinedReportActions s ! nat (indexOfLinkedAction s))
    \<and> oldestReportAction pg s = oldestOf (combinedReportActions s)"
proof -
  let ?P = "\<lambda>obj. reportActionID obj = t"
  let ?xs = "combinedReportActions s"
  have idx: "indexOfLinkedAction s = findIndex ?P ?xs"
    using assms(1-4) by (rule index_first_render)
  from assms(5) have "\<exists>x \<in> set ?xs. ?P x" by auto
  then have ge: "0 \<le> findIndex ?P ?xs" by (rule findIndex_exists)
  note f = findIndex_found [OF ge]
  have win: "reportActions pg s = drop (nat (findIndex ?P ?xs)) ?xs"
    using assms(1-4) ge idx
    by (simp add: reportActions_def truthy_def slice_nonneg)
  show ?thesis
    unfolding newestReportAction_def oldestReportAction_def win idx
    using ge f by (simp add: oldestOf_drop newestOf_drop)
qed

text \<open>C4 as amended, on the deep link to \<open>a2\<close> in \<open>[a3, a2, a1]\<close>.\<close>

theorem reportActions_first_render_suffix_witness:
  "routeReportActionID sLink = Some ''a2'' \<and> ''a2'' \<noteq> [] \<and> \<not> isLoading sLink
   \<and> isFirstLinkedActionRender sLink
   \<and> ''a2'' \<in> reportActionID ` set (combinedReportActions sLink)
   \<and> reportActions 15 sLink = drop 1 [a3, a2, a1]
   \<and> newestReportAction 15 sLink = Some a2
   \<and> oldestReportAction 15 sLink = Some a1"
proof -
  have h: "routeReportActionID sLink = Some ''a2''" "''a2'' \<noteq> []" "\<not> isLoading sLink"
    "isFirstLinkedActionRender sLink"
    "''a2'' \<in> reportActionID ` set (combinedReportActions sLink)"
    by (simp_all add: sLink_def s_defs isLoading_def truthy_def)
  have c: "combinedReportActions sLink = [a3, a2, a1]" by (simp add: sLink_def s_defs)
  from reportActions_first_render_suffix [OF h, of 15] h show ?thesis
    by (simp add: sLink_eval c oldestOf_def)
qed

text \<open>
  C4 as stated fails. The merged sequence \<open>[a3, a2, a1]\<close> is newest first (the newest
  entry of a list is its first, the oldest its last), the target is \<open>a2\<close>, the
  first-render flag is set and the view is not loading. The window is \<open>[a2, a1]\<close>: it
  does not reach the newest entry \<open>a3\<close>, and it holds \<open>a1\<close>, which is older than the
  target.
\<close>

theorem first_render_window_excludes_newest:
  "routeReportActionID sLink = Some ''a2''
   \<and> isFirstLinkedActionRender sLink \<and> \<not> isLoading sLink
   \<and> combinedReportActions sLink = [a3, a2, a1]
   \<and> newestOf (combinedReportActions sLink) = Some a3
   \<and> oldestOf (combinedReportActions sLink) = Some a1
   \<and> reportActions 15 sLink = [a2, a1]
   \<and> a3 \<notin> set (reportActions 15 sLink)
   \<and> a1 \<in> set (reportActions 15 sLink)"
  by (simp add: sLink_eval)
     (simp add: sLink_def s_defs isLoading_def truthy_def newestOf_def oldestOf_def)

text \<open>
  C5. With the first-render flag false and the current pointer found at index \<open>i\<close> of the
  merged sequence (which needs a deep-link target and a view that is not loading), the
  window is the suffix of the merged sequence from index \<open>max 0 (i - paginationSize)\<close>.
\<close>

theorem reportActions_later_render_suffix:
  assumes "\<not> isFirstLinkedActionRender s" "indexOfLinkedAction s = i" "0 \<le> i"
  shows "reportActions pg s = drop (nat (max 0 (i - pg))) (combinedReportActions s)
    \<and> nat i < length (combinedReportActions s)
    \<and> reportActionID (combinedReportActions s ! nat i) = currentReportActionID s
    \<and> truthy (routeReportActionID s)"
proof -
  let ?P = "\<lambda>obj. reportActionID obj = currentReportActionID s"
  from assms have g: "truthy (routeReportActionID s)" "\<not> isLoading s"
    by (auto simp: indexOfLinkedAction_def split: if_splits)
  with assms have idx: "i = findIndex ?P (combinedReportActions s)"
    by (simp add: indexOfLinkedAction_def)
  from assms(3) have ge: "0 \<le> findIndex ?P (combinedReportActions s)" unfolding idx .
  note f = findIndex_found [OF ge]
  have "reportActions pg s = slice (max (i - pg) 0) (combinedReportActions s)"
    using assms g by (simp add: reportActions_def)
  then have "reportActions pg s = drop (nat (max 0 (i - pg))) (combinedReportActions s)"
    by (simp add: slice_nonneg max.commute)
  with f g show ?thesis unfolding idx by simp
qed

text \<open>
  C5, with the pointer at index 10 of 24 entries: a page of 3 starts the window at index
  7, a page of 15 is clamped to the start of the sequence.
\<close>

theorem reportActions_later_render_suffix_witness:
  "\<not> isFirstLinkedActionRender sPointer \<and> indexOfLinkedAction sPointer = 10
   \<and> reportActions 3 sPointer = drop 7 letters
   \<and> reportActions 15 sPointer = letters"
proof -
  have h: "\<not> isFirstLinkedActionRender sPointer" by (simp add: sPointer_def s0_def)
  have c: "combinedReportActions sPointer = letters" by (simp add: sPointer_def s0_def)
  from reportActions_later_render_suffix [OF h sPointer_index, of 3]
    reportActions_later_render_suffix [OF h sPointer_index, of 15] h sPointer_index c
  show ?thesis by simp
qed

section \<open>Older content first\<close>

text \<open>
  C6. When the rendered content is lower than the viewport (\<open>windowHeight - 120 - 16\<close>)
  and the window holds more than 23 entries, \<open>loadNewerChats\<close> returns with the snapshot
  unchanged (the current pointer and the first-render flag are not written) and with no
  request issued.
\<close>

theorem loadNewerChats_older_first:
  "checkIfContentSmallerThanList s \<Longrightarrow> 23 < length (reportActions pg s)
   \<Longrightarrow> loadNewerChats pg s = Inr (s, [])"
  by (auto simp: loadNewerChats_def newestReportAction_def newestOf_def Let_def
        split: list.splits)

text \<open>C6, with 24 entries of height 100 in a window of height 800.\<close>

theorem loadNewerChats_older_first_witness:
  "checkIfContentSmallerThanList sShort \<and> 23 < length (reportActions 15 sShort)
   \<and> loadNewerChats 15 sShort = Inr (sShort, [])"
proof -
  have h1: "checkIfContentSmallerThanList sShort"
    by (simp add: sShort_def s0_def checkIfContentSmallerThanList_def)
  have "reportActions 15 sShort = letters"
    by (simp add: sShort_def s0_def reportActions_def truthy_def)
  then have h2: "23 < length (reportActions 15 sShort)" by (simp add: length_letters)
  from loadNewerChats_older_first [OF h1 h2] h1 h2 show ?thesis by simp
qed

section \<open>Back online\<close>

text \<open>
  C7, as amended. On a transition from offline to online, for a report that passes the
  \<open>shouldFetchReport\<close> guard: when the screen is fully visible exactly one open-report
  call and no reconnect call is issued; when it is not, exactly one reconnect call and no
  open-report call. For a report the guard rejects no call is issued. The effect records
  the online state, so it does not fire again on the same transition.
\<close>

theorem networkEffect_back_online:
  assumes "prevNetworkIsOffline s" "\<not> isOffline s"
  shows "(shouldFetchReport (report s) \<and> isReportFullyVisible s \<longrightarrow>
            snd (networkEffect shouldFetchReport s)
              = [OpenReport (reportID (report s)) (routeReportActionID s)]
            \<and> length (filter isOpenReport (snd (networkEffect shouldFetchReport s))) = 1
            \<and> length (filter isReconnect (snd (networkEffect shouldFetchReport s))) = 0)
    \<and> (shouldFetchReport (report s) \<and> \<not> isReportFullyVisible s \<longrightarrow>
            snd (networkEffect shouldFetchReport s) = [Reconnect (reportID (report s))]
            \<and> length (filter isReconnect (snd (networkEffect shouldFetchReport s))) = 1
            \<and> length (filter isOpenReport (snd (networkEffect shouldFetchReport s))) = 0)
    \<and> (\<not> shouldFetchReport (report s) \<longrightarrow> snd (networkEffect shouldFetchReport s) = [])
    \<and> \<not> prevNetworkIsOffline (fst (networkEffect shouldFetchReport s))"
  using assms
  by (simp add: networkEffect_def openReportIfNecessary_def reconnectReportIfNecessary_def
        isOpenReport_def isReconnect_def Let_def)

text \<open>C7 as amended, on a report the guard accepts, with the screen visible and hidden.\<close>

theorem networkEffect_back_online_witness:
  "prevNetworkIsOffline sBack \<and> \<not> isOffline sBack
   \<and> fetchExcept ''r9'' (report sBack) \<and> isReportFullyVisible sBack
   \<and> snd (networkEffect (fetchExcept ''r9'') sBack) = [OpenReport ''r1'' None]
   \<and> prevNetworkIsOffline sBackHidden \<and> \<not> isOffline sBackHidden
   \<and> fetchExcept ''r9'' (report sBackHidden) \<and> \<not> isReportFullyVisible sBackHidden
   \<and> snd (networkEffect (fetchExcept ''r9'') sBackHidden) = [Reconnect ''r1'']"
proof -
  have h: "prevNetworkIsOffline sBack" "\<not> isOffline sBack"
    "fetchExcept ''r9'' (report sBack)" "isReportFullyVisible sBack"
    by (simp_all add: sBack_def s_defs fetchExcept_def)
  have k: "prevNetworkIsOffline sBackHidden" "\<not> isOffline sBackHidden"
    "fetchExcept ''r9'' (report sBackHidden)" "\<not> isReportFullyVisible sBackHidden"
    by (simp_all add: sBackHidden_def s_defs fetchExcept_def)
  have v: "reportID (report sBack) = ''r1''" "routeReportActionID sBack = None"
    "reportID (report sBackHidden) = ''r1''"
    by (simp_all add: sBack_def sBackHidden_def s_defs)
  from networkEffect_back_online [OF h(1,2), of "fetchExcept ''r9''"]
    networkEffect_back_online [OF k(1,2), of "fetchExcept ''r9''"] h k v
  show ?thesis by simp
qed

text \<open>
  C7 as stated fails: the client comes back online with the screen fully visible, the
  guard rejects the report \<open>r1\<close>, and no open-report call is issued.
\<close>

theorem networkEffect_guard_rejects:
  "prevNetworkIsOffline sBack \<and> \<not> isOffline sBack \<and> isReportFullyVisible sBack
   \<and> snd (networkEffect (fetchExcept ''r1'') sBack) = []
   \<and> length (filter isOpenReport (snd (networkEffect (fetchExcept ''r1'') sBack))) = 0"
  by (simp add: sBack_def s_defs fetchExcept_def networkEffect_def openReportIfNecessary_def
        Let_def)

section \<open>The empty window\<close>

text \<open>
  C9, as amended. \<open>loadNewerChats\<close> reads the pending state of the window's newest entry
  whenever none of the three flags before it in the guard (initial fetch, older fetch,
  offline) is set. On a non-empty window it always returns. On an empty window it throws
  exactly when none of those flags is set, and returns without a request otherwise. The
  view renders nothing exactly when the window is empty, so the callbacks it hands to the
  list belong to a non-empty window and \<open>loadNewerChats\<close> returns there.
  \<open>loadOlderChats\<close> guards the missing oldest entry itself: on an empty window it issues
  nothing.
\<close>

theorem loadNewerChats_defined_when_rendered:
  "(reportActions pg s \<noteq> [] \<longrightarrow> (\<exists>r. loadNewerChats pg s = Inr r))
   \<and> (reportActions pg s = [] \<longrightarrow>
        loadNewerChats pg s =
          (if isLoadingInitialReportActions s \<or> isLoadingOlderReportActions s \<or> isOffline s
           then Inr (s, []) else Inl TypeError))
   \<and> (ReportActionsView pg s = None \<longleftrightarrow> reportActions pg s = [])
   \<and> (\<forall>p. ReportActionsView pg s = Some p \<longrightarrow>
          props_loadNewerChats p () = loadNewerChats pg s
          \<and> props_loadOlderChats p () = loadOlderChats pg s
          \<and> (\<exists>r. props_loadNewerChats p () = Inr r))
   \<and> (reportActions pg s = [] \<longrightarrow> loadOlderChats pg s = [])"
  using loadNewerChats_nonempty [of pg s] loadNewerChats_empty [of pg s]
    loadOlderChats_empty [of pg s]
  by (auto simp: ReportActionsView_def)

text \<open>
  C9 as amended, on an empty window online (the read throws, nothing is rendered) and on
  the non-empty window of \<open>s0\<close>.
\<close>

theorem loadNewerChats_defined_when_rendered_witness:
  "reportActions 15 sEmpty = [] \<and> loadNewerChats 15 sEmpty = Inl TypeError
   \<and> ReportActionsView 15 sEmpty = None \<and> loadOlderChats 15 sEmpty = []
   \<and> reportActions 15 s0 \<noteq> [] \<and> ReportActionsView 15 s0 \<noteq> None
   \<and> (\<exists>r. loadNewerChats 15 s0 = Inr r)"
proof -
  have e: "reportActions 15 sEmpty = []" "\<not> isLoadingInitialReportActions sEmpty"
    "\<not> isLoadingOlderReportActions sEmpty" "\<not> isOffline sEmpty"
    by (simp_all add: sEmpty_def s0_def reportActions_def truthy_def)
  have n: "reportActions 15 s0 \<noteq> []"
    by (simp add: s0_def reportActions_def truthy_def)
  from loadNewerChats_defined_when_rendered [of 15 sEmpty]
    loadNewerChats_defined_when_rendered [of 15 s0] e n
  show ?thesis by simp
qed

text \<open>
  C9 as stated fails: on an empty window with the client offline, \<open>loadNewerChats\<close>
  returns before the read of the pending state and is defined.
\<close>

theorem loadNewerChats_empty_window_offline:
  "reportActions 15 sEmptyOffline = []
   \<and> isOffline sEmptyOffline
   \<and> loadNewerChats 15 sEmptyOffline = Inr (sEmptyOffline, [])"
  by (simp add: sEmptyOffline_def s0_def reportActions_def truthy_def loadNewerChats_def)

section \<open>Auto-scroll\<close>

text \<open>
  C10. In every rendered state, when the auto-scroll flag handed to the list is enabled,
  the newest held entry's creation timestamp equals the last-visible-action timestamp of
  the report or of the transaction thread report, and in addition either there is no
  deep-link target or the navigation to it has settled.
\<close>

theorem autoScroll_only_at_newest:
  assumes "ReportActionsView pg s = Some p" "props_shouldEnableAutoScrollToTopThreshold p"
  shows "hasNewestReportAction pg s
    \<and> (\<exists>a. newestReportAction pg s = Some a
          \<and> (Some (created a) = lastVisibleActionCreated (report s)
             \<or> (\<exists>t. transactionThreadReport s = Some t
                    \<and> Some (created a) = lastVisibleActionCreated t)))
    \<and> (\<not> truthy (routeReportActionID s) \<or> \<not> isNavigatingToLinkedMessage s)"
proof -
  from assms(1) have ne: "reportActions pg s \<noteq> []"
    and p: "props_shouldEnableAutoScrollToTopThreshold p = shouldEnableAutoScroll pg s"
    by (auto simp: ReportActionsView_def split: if_splits)
  from window_newest [OF ne] obtain a where a: "newestReportAction pg s = Some a" ..
  from p assms(2) have se: "shouldEnableAutoScroll pg s" by simp
  then have h: "hasNewestReportAction pg s"
    and n: "\<not> truthy (routeReportActionID s) \<or> \<not> isNavigatingToLinkedMessage s"
    by (simp_all add: shouldEnableAutoScroll_def)
  from h a have "Some (created a) = lastVisibleActionCreated (report s)
      \<or> (\<exists>t. transactionThreadReport s = Some t \<and> Some (created a) = lastVisibleActionCreated t)"
    by (auto simp: hasNewestReportAction_def newestReportAction_def Let_def split: option.splits)
  with h a n show ?thesis by blast
qed

text \<open>C10, on a rendered snapshot whose newest entry \<open>a4\<close> is the report's last visible action.\<close>

theorem autoScroll_only_at_newest_witness:
  "ReportActionsView 15 sTop \<noteq> None
   \<and> props_shouldEnableAutoScrollToTopThreshold (the (ReportActionsView 15 sTop))
   \<and> hasNewestReportAction 15 sTop
   \<and> newestReportAction 15 sTop = Some a4
   \<and> Some (created a4) = lastVisibleActionCreated (report sTop)"
proof -
  have w: "reportActions 15 sTop = [a4, a3, a2, a1]"
    by (simp add: sTop_def s0_def reportActions_def truthy_def)
  have v: "ReportActionsView 15 sTop \<noteq> None" by (simp add: ReportActionsView_def w)
  then have v': "ReportActionsView 15 sTop = Some (the (ReportActionsView 15 sTop))" by simp
  have f: "props_shouldEnableAutoScrollToTopThreshold (the (ReportActionsView 15 sTop))"
    by (simp add: ReportActionsView_def w shouldEnableAutoScroll_def hasNewestReportAction_def
          newestOf_def a4_def mk_simps)
       (simp add: sTop_def s0_def truthy_def)
  have c1: "newestReportAction 15 sTop = Some a4"
    by (simp add: newestReportAction_def newestOf_def w)
  have c2: "Some (created a4) = lastVisibleActionCreated (report sTop)"
    by (simp add: a4_def mk_simps sTop_def)
  from autoScroll_only_at_newest [OF v' f] v f c1 c2 show ?thesis by simp
qed

section \<open>The prefix padding lookup\<close>

text \<open>
  C8. The padding lookup returns 10 for the room prefix; for every other prefix it
  raises an error whose message names that prefix, and never a padding.
\<close>

theorem getCharacterPadding_mapped_or_error:
  "getCharacterPadding ROOM_PREFIX ROOM_PREFIX = Inr 10
   \<and> (prefix \<noteq> ROOM_PREFIX \<longrightarrow>
        getCharacterPadding ROOM_PREFIX prefix
          = Inl (Error (''Prefix '' @ prefix @ '' has no padding assigned.''))
        \<and> (\<forall>n. getCharacterPadding ROOM_PREFIX prefix \<noteq> Inr n))"
  by (simp add: getCharacterPadding_def)

text \<open>C8, with \<open>#\<close> as the room prefix and \<open>@\<close> as an unmapped one.\<close>

theorem getCharacterPadding_mapped_or_error_witness:
  "getCharacterPadding ''#'' ''#'' = Inr 10
   \<and> ''@'' \<noteq> ''#''
   \<and> getCharacterPadding ''#'' ''@'' = Inl (Error ''Prefix @ has no padding assigned.'')"
  using getCharacterPadding_mapped_or_error [of "''#''" "''@''"] by simp

end
